theory Spec2Isabelle
  imports Main "HOL-Library.AList"
begin

section \<open>Exceptions\<close>

text \<open>
  Every \<^verbatim>\<open>raise\<close> of the source is a value: the exception class with the text of
  \<^verbatim>\<open>str(e)\<close>. A function that may raise returns \<open>exn + 'a\<close>, with \<open>Inl\<close> the
  exception. The four classes are those the source raises or names in an
  \<^verbatim>\<open>except\<close> clause.
\<close>

datatype exn = IndexError string | ValueError string | KeyError string | TypeError string

section \<open>Strings\<close>

text \<open>
  A Python \<^verbatim>\<open>str\<close> is modelled as a \<open>string\<close>: a list of characters with code
  points 0..255. On these code points the regular expression class \<^verbatim>\<open>\d\<close> holds of
  the ten ASCII digits and of nothing else.
\<close>

definition is_digit :: "char \<Rightarrow> bool" where
  "is_digit c \<longleftrightarrow> c \<in> set ''0123456789''"

section \<open>Calendar dates\<close>

text \<open>
  \<^verbatim>\<open>datetime.date\<close> of the standard library: the proleptic Gregorian calendar with
  years 1..9999. The birthday of the source is a \<^verbatim>\<open>datetime\<close> whose time of day is
  dropped by \<^verbatim>\<open>.date()\<close> (line 83) before any use, so a birthday is modelled by its
  date. The definitions follow the library's own: \<^verbatim>\<open>_is_leap\<close>,
  \<^verbatim>\<open>_days_before_year\<close>, \<^verbatim>\<open>_days_in_month\<close>, \<^verbatim>\<open>_days_before_month\<close>,
  \<^verbatim>\<open>_ymd2ord\<close>, \<^verbatim>\<open>_check_date_fields\<close>, \<^verbatim>\<open>date.replace\<close>,
  \<^verbatim>\<open>date.toordinal\<close>, \<^verbatim>\<open>date.weekday\<close>.
\<close>

record date =
  year :: int
  month :: int
  day :: int

definition MINYEAR :: int where "MINYEAR = 1"
definition MAXYEAR :: int where "MAXYEAR = 9999"

definition is_leap :: "int \<Rightarrow> bool" where
  "is_leap y \<longleftrightarrow> y mod 4 = 0 \<and> (y mod 100 \<noteq> 0 \<or> y mod 400 = 0)"

definition days_before_year :: "int \<Rightarrow> int" where
  "days_before_year y = (let y1 = y - 1 in y1 * 365 + y1 div 4 - y1 div 100 + y1 div 400)"

definition DAYS_IN_MONTH :: "int list" where
  "DAYS_IN_MONTH = [-1, 31, 28, 31, 30, 31, 30, 31, 31, 30, 31, 30, 31]"

definition DAYS_BEFORE_MONTH :: "int list" where
  "DAYS_BEFORE_MONTH = [-1, 0, 31, 59, 90, 120, 151, 181, 212, 243, 273, 304, 334]"

text \<open>Both tables are read at a month in 1..12 only (the library asserts it).\<close>

definition days_in_month :: "int \<Rightarrow> int \<Rightarrow> int" where
  "days_in_month y m = (if m = 2 \<and> is_leap y then 29 else DAYS_IN_MONTH ! nat m)"

definition days_before_month :: "int \<Rightarrow> int \<Rightarrow> int" where
  "days_before_month y m = DAYS_BEFORE_MONTH ! nat m + (if m > 2 \<and> is_leap y then 1 else 0)"

definition ymd2ord :: "int \<Rightarrow> int \<Rightarrow> int \<Rightarrow> int" where
  "ymd2ord y m d = days_before_year y + days_before_month y m + d"

definition toordinal :: "date \<Rightarrow> int" where
  "toordinal d = ymd2ord (year d) (month d) (day d)"

text \<open>
  \<^verbatim>\<open>_check_date_fields\<close>: the year, then the month, then the day are checked, and
  the first check that fails raises ValueError. The texts are those of CPython's
  implementation, the year's without the number.
\<close>

definition check_date_fields :: "int \<Rightarrow> int \<Rightarrow> int \<Rightarrow> exn + unit" where
  "check_date_fields y m d =
     (if y < MINYEAR \<or> MAXYEAR < y then Inl (ValueError ''year is out of range'')
      else if m < 1 \<or> 12 < m then Inl (ValueError ''month must be in 1..12'')
      else if d < 1 \<or> days_in_month y m < d then Inl (ValueError ''day is out of range for month'')
      else Inr ())"

text \<open>A \<^verbatim>\<open>date\<close> object exists only with fields that pass the check.\<close>

definition valid_date :: "date \<Rightarrow> bool" where
  "valid_date d \<longleftrightarrow> check_date_fields (year d) (month d) (day d) = Inr ()"

text \<open>\<^verbatim>\<open>d.replace(year=y)\<close>: a new date from the checked fields, or ValueError.\<close>

definition replace_year :: "date \<Rightarrow> int \<Rightarrow> exn + date" where
  "replace_year d y =
     (case check_date_fields y (month d) (day d) of
        Inl e \<Rightarrow> Inl e
      | Inr _ \<Rightarrow> Inr (d\<lparr>year := y\<rparr>))"

text \<open>\<^verbatim>\<open>(a - b).days\<close>\<close>

definition days_between :: "date \<Rightarrow> date \<Rightarrow> int" where
  "days_between a b = toordinal a - toordinal b"

text \<open>\<^verbatim>\<open>date.weekday()\<close>: Monday is 0, Sunday is 6.\<close>

definition weekday :: "date \<Rightarrow> int" where
  "weekday d = (toordinal d + 6) mod 7"

text \<open>\<^verbatim>\<open>calendar.day_name\<close>, in the locale a Python process starts in.\<close>

definition day_name :: "string list" where
  "day_name = [''Monday'', ''Tuesday'', ''Wednesday'', ''Thursday'', ''Friday'',
               ''Saturday'', ''Sunday'']"

section \<open>Fields\<close>

text \<open>
  \<^verbatim>\<open>Field\<close> holds one attribute \<^verbatim>\<open>value\<close>; \<^verbatim>\<open>Name\<close>, \<^verbatim>\<open>Phone\<close> and
  \<^verbatim>\<open>Birthday\<close> are its subclasses. The constructors below are
  \<^verbatim>\<open>Field.__init__\<close>, which stores the value unchecked; \<open>Phone_init\<close> is
  \<^verbatim>\<open>Phone.__init__\<close> with its check. \<^verbatim>\<open>Birthday.__init__\<close> raises TypeError
  on a value that is not a \<^verbatim>\<open>datetime\<close>; here the type excludes such a value.
\<close>

datatype Name = Name (name_value: string)
datatype Phone = Phone (phone_value: string)
datatype Birthday = Birthday (birthday_value: date)

text \<open>
  \<^verbatim>\<open>re.match(r"^\d{10}$", value)\<close>: \<^verbatim>\<open>^\<close> is the start of the string, \<^verbatim>\<open>\d{10}\<close>
  takes ten digits, and \<^verbatim>\<open>$\<close> (no flag is given) matches at the end of the string
  and also just before a newline that is the string's last character.
\<close>

definition at_dollar :: "string \<Rightarrow> bool" where
  "at_dollar rest \<longleftrightarrow> rest = [] \<or> rest = [CHR 0x0A]"

definition match_phone :: "string \<Rightarrow> bool" where
  "match_phone s \<longleftrightarrow>
     length (take 10 s) = 10 \<and> list_all is_digit (take 10 s) \<and> at_dollar (drop 10 s)"

definition Phone_init :: "string \<Rightarrow> exn + Phone" where
  "Phone_init v =
     (if \<not> match_phone v then Inl (ValueError ''Phone number must be 10 digits.'')
      else Inr (Phone v))"

section \<open>Record\<close>

text \<open>
  A method that mutates \<^verbatim>\<open>self\<close> returns the record after the call. Where the
  method can raise after it has mutated, it returns the outcome paired with the record
  as the call leaves it.
\<close>

record Record =
  name :: Name
  phones :: "Phone list"
  birthday :: "Birthday option"

definition add_birthday :: "date \<Rightarrow> Record \<Rightarrow> Record" where
  "add_birthday b r = r\<lparr>birthday := Some (Birthday b)\<rparr>"

text \<open>\<^verbatim>\<open>Record.__init__\<close>; a \<^verbatim>\<open>datetime\<close> is always true in \<^verbatim>\<open>if birthday:\<close>.\<close>

definition Record_init :: "string \<Rightarrow> date option \<Rightarrow> Record" where
  "Record_init n b =
     (let r = \<lparr>name = Name n, phones = [], birthday = None\<rparr>
      in case b of None \<Rightarrow> r | Some d \<Rightarrow> add_birthday d r)"

text \<open>\<^verbatim>\<open>add_phone\<close>: the Phone is built first, so a raise leaves the list as it was.\<close>

definition add_phone :: "string \<Rightarrow> Record \<Rightarrow> (exn + unit) \<times> Record" where
  "add_phone phone r =
     (case Phone_init phone of
        Inl e \<Rightarrow> (Inl e, r)
      | Inr p \<Rightarrow> (Inr (), r\<lparr>phones := phones r @ [p]\<rparr>))"

text \<open>
  \<^verbatim>\<open>find_phone\<close>, and the loop of \<^verbatim>\<open>remove_phone\<close>: the first phone of the list
  whose value equals the argument.
\<close>

definition find_phone :: "string \<Rightarrow> Record \<Rightarrow> Phone option" where
  "find_phone phone r = find (\<lambda>p. phone_value p = phone) (phones r)"

text \<open>
  \<^verbatim>\<open>remove_phone\<close>: \<^verbatim>\<open>list.remove\<close> takes out the first element equal to the phone
  found, which is that phone itself. A Phone object is always true in
  \<^verbatim>\<open>if phone_to_remove:\<close>.
\<close>

definition remove_phone :: "string \<Rightarrow> Record \<Rightarrow> Record" where
  "remove_phone phone r =
     (case find (\<lambda>p. phone_value p = phone) (phones r) of
        None \<Rightarrow> r
      | Some phone_to_remove \<Rightarrow> r\<lparr>phones := remove1 phone_to_remove (phones r)\<rparr>)"

definition edit_phone :: "string \<Rightarrow> string \<Rightarrow> Record \<Rightarrow> (exn + unit) \<times> Record" where
  "edit_phone old_phone new_phone r = add_phone new_phone (remove_phone old_phone r)"

section \<open>AddressBook\<close>

text \<open>
  \<^verbatim>\<open>UserDict.data\<close> is a \<^verbatim>\<open>dict\<close>, which keeps its keys in the order of their
  first insertion: an association list with distinct keys. Assigning to a key that is
  present replaces the value in place, assigning to a new key appends.
\<close>

type_synonym AddressBook = "(string \<times> Record) list"

definition wf_book :: "AddressBook \<Rightarrow> bool" where
  "wf_book book \<longleftrightarrow> distinct (map fst book)"

definition add_record :: "Record \<Rightarrow> AddressBook \<Rightarrow> AddressBook" where
  "add_record record book = AList.update (name_value (name record)) record book"

definition find_record :: "string \<Rightarrow> AddressBook \<Rightarrow> Record option" where
  "find_record n book = map_of book n"

definition delete :: "string \<Rightarrow> AddressBook \<Rightarrow> AddressBook" where
  "delete n book = (if n \<in> set (map fst book) then AList.delete n book else book)"

section \<open>The weekly birthday report\<close>

text \<open>
  \<^verbatim>\<open>get_birthdays_per_week\<close> reads the clock once (line 78); the date read is the
  parameter \<open>today\<close>. Its result is a \<^verbatim>\<open>defaultdict(list)\<close>, which keeps its keys
  in the order of their first use.
\<close>

type_synonym birthdays = "(string \<times> string list) list"

text \<open>
  \<^verbatim>\<open>birthdays[day_of_week].append(name)\<close>: a key that is missing starts from the
  empty list.
\<close>

definition append_name :: "string \<Rightarrow> string \<Rightarrow> birthdays \<Rightarrow> birthdays" where
  "append_name day_of_week n bs =
     AList.update day_of_week
       ((case map_of bs day_of_week of None \<Rightarrow> [] | Some ns \<Rightarrow> ns) @ [n]) bs"

text \<open>
  Lines 84 to 89: the birthday moved to this year, its distance from today in days,
  and both once more with the next year when the distance is negative. Either
  \<^verbatim>\<open>replace\<close> can raise.
\<close>

definition birthday_occurrence :: "date \<Rightarrow> date \<Rightarrow> exn + date \<times> int" where
  "birthday_occurrence today b =
     (case replace_year b (year today) of
        Inl e \<Rightarrow> Inl e
      | Inr birthday_this_year \<Rightarrow>
          (let delta_days = days_between birthday_this_year today in
           if delta_days < 0 then
             (case replace_year birthday_this_year (year today + 1) of
                Inl e \<Rightarrow> Inl e
              | Inr birthday_next_year \<Rightarrow>
                  Inr (birthday_next_year, days_between birthday_next_year today))
           else Inr (birthday_this_year, delta_days)))"

text \<open>Lines 92 to 94: the name of the weekday, Monday for a Saturday or a Sunday.\<close>

definition weekday_label :: "date \<Rightarrow> string" where
  "weekday_label d =
     (let day_of_week = day_name ! nat (weekday d) in
      if day_of_week \<in> set [''Saturday'', ''Sunday''] then ''Monday'' else day_of_week)"

text \<open>Lines 81 to 95: the body of the loop, for one record.\<close>

definition visit_record :: "date \<Rightarrow> Record \<Rightarrow> birthdays \<Rightarrow> exn + birthdays" where
  "visit_record today record bs =
     (case birthday record of
        None \<Rightarrow> Inr bs
      | Some b \<Rightarrow>
          (case birthday_occurrence today (birthday_value b) of
             Inl e \<Rightarrow> Inl e
           | Inr (birthday_this_year, delta_days) \<Rightarrow>
               if 0 \<le> delta_days \<and> delta_days < 7
               then Inr (append_name (weekday_label birthday_this_year)
                           (name_value (name record)) bs)
               else Inr bs))"

text \<open>
  The loop over \<^verbatim>\<open>self.data.values()\<close>. The book is carried through the loop as
  every iteration leaves it; an exception ends the loop at once.
\<close>

fun birthdays_loop ::
  "date \<Rightarrow> Record list \<Rightarrow> birthdays \<Rightarrow> AddressBook \<Rightarrow> (exn + birthdays) \<times> AddressBook" where
  "birthdays_loop today [] bs self = (Inr bs, self)"
| "birthdays_loop today (record # records) bs self =
     (case visit_record today record bs of
        Inl e \<Rightarrow> (Inl e, self)
      | Inr bs' \<Rightarrow> birthdays_loop today records bs' self)"

definition get_birthdays_per_week ::
  "date \<Rightarrow> AddressBook \<Rightarrow> (exn + birthdays) \<times> AddressBook" where
  "get_birthdays_per_week today self = birthdays_loop today (map snd self) [] self"

section \<open>The command interpreter\<close>

text \<open>
  \<^verbatim>\<open>str.lower\<close>, \<^verbatim>\<open>str.strip\<close> and \<^verbatim>\<open>str.split\<close> on code points 0..255: the
  capital letters are A to Z and the Latin-1 capitals (192..222 but 215), each 32 below
  its small letter; the white space is 9..13, 28..32, 133 and 160.
\<close>

definition lower_char :: "char \<Rightarrow> char" where
  "lower_char c =
     (let n = (of_char c :: nat) in
      if (65 \<le> n \<and> n \<le> 90) \<or> (192 \<le> n \<and> n \<le> 222 \<and> n \<noteq> 215)
      then char_of (n + 32) else c)"

definition lower :: "string \<Rightarrow> string" where
  "lower s = map lower_char s"

definition is_space :: "char \<Rightarrow> bool" where
  "is_space c \<longleftrightarrow>
     (let n = (of_char c :: nat) in
      (9 \<le> n \<and> n \<le> 13) \<or> (28 \<le> n \<and> n \<le> 32) \<or> n = 133 \<or> n = 160)"

definition strip :: "string \<Rightarrow> string" where
  "strip s = rev (dropWhile is_space (rev (dropWhile is_space s)))"

text \<open>\<^verbatim>\<open>s.split()\<close>: the maximal runs of characters that are not white space.\<close>

fun split_from :: "string \<Rightarrow> string \<Rightarrow> string list" where
  "split_from word [] = (if word = [] then [] else [word])"
| "split_from word (c # cs) =
     (if is_space c then (if word = [] then split_from [] cs else word # split_from [] cs)
      else split_from (word @ [c]) cs)"

definition split :: "string \<Rightarrow> string list" where
  "split s = split_from [] s"

text \<open>\<^verbatim>\<open>sep.join(xs)\<close>\<close>

fun join :: "string \<Rightarrow> string list \<Rightarrow> string" where
  "join sep [] = []"
| "join sep [x] = x"
| "join sep (x # y # ys) = x @ sep @ join sep (y # ys)"

text \<open>
  \<^verbatim>\<open>datetime.strptime\<close> and \<^verbatim>\<open>strftime\<close> belong to the standard library and are
  parameters of the interpreter: the parser of \<^verbatim>\<open>"%d.%m.%Y"\<close>, and the printers of
  \<^verbatim>\<open>"%d.%m.%Y"\<close> and \<^verbatim>\<open>"%Y-%m-%d"\<close>.
\<close>

record datetime_lib =
  strptime_dmY :: "string \<Rightarrow> exn + date"
  strftime_dmY :: "date \<Rightarrow> string"
  strftime_Ymd :: "date \<Rightarrow> string"

text \<open>\<^verbatim>\<open>str(e)\<close>\<close>

fun exn_str :: "exn \<Rightarrow> string" where
  "exn_str (IndexError m) = m"
| "exn_str (ValueError m) = m"
| "exn_str (KeyError m) = m"
| "exn_str (TypeError m) = m"

text \<open>
  The decorator \<^verbatim>\<open>input_error\<close>. A handler takes the book and returns its outcome
  with the book as it leaves it; the decorated handler returns a string in every case.
\<close>

fun catch_error :: "exn + string \<Rightarrow> string" where
  "catch_error (Inr s) = s"
| "catch_error (Inl (IndexError m)) = ''Error: '' @ exn_str (IndexError m)"
| "catch_error (Inl (ValueError m)) = ''Error: '' @ exn_str (ValueError m)"
| "catch_error (Inl (KeyError m)) = ''Error: '' @ exn_str (KeyError m)"
| "catch_error (Inl e) = ''Unexpected error: '' @ exn_str e"

definition input_error ::
  "(AddressBook \<Rightarrow> (exn + string) \<times> AddressBook) \<Rightarrow> AddressBook \<Rightarrow> string \<times> AddressBook" where
  "input_error func book = (case func book of (r, book') \<Rightarrow> (catch_error r, book'))"

text \<open>\<^verbatim>\<open>parse_input\<close>: the command in lower case and the arguments, or \<^verbatim>\<open>None, []\<close>.\<close>

definition parse_input :: "string \<Rightarrow> string option \<times> string list" where
  "parse_input user_input =
     (if strip user_input = [] then (None, [])
      else (case split user_input of
              [] \<Rightarrow> (None, [])  \<comment> \<open>never taken: the stripped input is not empty\<close>
            | cmd # args \<Rightarrow> (Some (lower (strip cmd)), args)))"

text \<open>\<^verbatim>\<open>Record.__str__\<close>\<close>

definition Record_str :: "datetime_lib \<Rightarrow> Record \<Rightarrow> string" where
  "Record_str L r =
     (let phones_str = join '', '' (map phone_value (phones r));
          birthday_str = (case birthday r of
                            None \<Rightarrow> []
                          | Some b \<Rightarrow> '', birthday: '' @ strftime_Ymd L (birthday_value b))
      in ''Contact name: '' @ name_value (name r) @ '', phones: '' @ phones_str @ birthday_str)"

text \<open>
  The handlers, each first as its body and then decorated. A record found in the book
  is the object the book holds, so a mutation of it is written back under its key.
\<close>

definition add_contact_body :: "string list \<Rightarrow> AddressBook \<Rightarrow> (exn + string) \<times> AddressBook" where
  "add_contact_body args book =
     (case args of
        [n, phone] \<Rightarrow>
          (case add_phone phone (Record_init (lower n) None) of
             (Inl e, _) \<Rightarrow> (Inl e, book)
           | (Inr _, record) \<Rightarrow> (Inr ''Contact added.'', add_record record book))
      | _ \<Rightarrow> (Inl (ValueError ''Invalid input. Please provide both name and phone number.''),
              book))"

definition add_contact :: "string list \<Rightarrow> AddressBook \<Rightarrow> string \<times> AddressBook" where
  "add_contact args = input_error (add_contact_body args)"

text \<open>
  \<^verbatim>\<open>change_phone\<close>: with no phone in the record \<^verbatim>\<open>old_phone\<close> is \<^verbatim>\<open>None\<close>, which
  equals no phone value, so \<^verbatim>\<open>edit_phone\<close> removes nothing and only adds.
\<close>

definition change_phone_body :: "string list \<Rightarrow> AddressBook \<Rightarrow> (exn + string) \<times> AddressBook" where
  "change_phone_body args book =
     (case args of
        [n, new_phone] \<Rightarrow>
          (case find_record (lower n) book of
             Some record \<Rightarrow>
               (case (case phones record of
                        [] \<Rightarrow> add_phone new_phone record
                      | p # _ \<Rightarrow> edit_phone (phone_value p) new_phone record) of
                  (Inl e, record') \<Rightarrow> (Inl e, AList.update (lower n) record' book)
                | (Inr _, record') \<Rightarrow>
                    (Inr (''Contact for '' @ n @ '' updated.''),
                     AList.update (lower n) record' book))
           | None \<Rightarrow> (Inr ''Contact not found.'', book))
      | _ \<Rightarrow> (Inl (ValueError ''Invalid input. Please provide both name and phone number.''),
              book))"

definition change_phone :: "string list \<Rightarrow> AddressBook \<Rightarrow> string \<times> AddressBook" where
  "change_phone args = input_error (change_phone_body args)"

definition get_phone_body :: "string list \<Rightarrow> AddressBook \<Rightarrow> (exn + string) \<times> AddressBook" where
  "get_phone_body args book =
     (case args of
        [] \<Rightarrow> (Inl (ValueError ''Please provide a contact name.''), book)
      | n # _ \<Rightarrow>
          (case find_record (lower n) book of
             None \<Rightarrow> (Inr ''Contact not found.'', book)
           | Some record \<Rightarrow>
               (case phones record of
                  [] \<Rightarrow> (Inr ''Contact not found.'', book)
                | p # _ \<Rightarrow> (Inr (phone_value p), book))))"

definition get_phone :: "string list \<Rightarrow> AddressBook \<Rightarrow> string \<times> AddressBook" where
  "get_phone args = input_error (get_phone_body args)"

definition show_all_contacts_body ::
  "datetime_lib \<Rightarrow> AddressBook \<Rightarrow> (exn + string) \<times> AddressBook" where
  "show_all_contacts_body L book =
     (if book \<noteq> [] then (Inr (join [CHR 0x0A] (map (Record_str L) (map snd book))), book)
      else (Inr ''No contacts saved.'', book))"

definition show_all_contacts :: "datetime_lib \<Rightarrow> AddressBook \<Rightarrow> string \<times> AddressBook" where
  "show_all_contacts L = input_error (show_all_contacts_body L)"

text \<open>
  The handler \<^verbatim>\<open>add_birthday\<close> of the interpreter (the method of Record has the
  name already). Its own \<^verbatim>\<open>except ValueError\<close> answers a string that failed to parse.
\<close>

definition add_birthday_handler_body ::
  "datetime_lib \<Rightarrow> string list \<Rightarrow> AddressBook \<Rightarrow> (exn + string) \<times> AddressBook" where
  "add_birthday_handler_body L args book =
     (case args of
        [n, birthday_str] \<Rightarrow>
          (case find_record (lower n) book of
             None \<Rightarrow> (Inr ''Contact not found.'', book)
           | Some record \<Rightarrow>
               (case strptime_dmY L birthday_str of
                  Inl (ValueError m) \<Rightarrow> (Inr ''Invalid date format. Use DD.MM.YYYY.'', book)
                | Inl e \<Rightarrow> (Inl e, book)
                | Inr b \<Rightarrow>
                    (Inr ''Birthday added.'', AList.update (lower n) (add_birthday b record) book)))
      | _ \<Rightarrow>
          (Inl (ValueError
             ''Please provide both the contact name and birthday in the format 'DD.MM.YYYY'.''),
           book))"

definition add_birthday_handler ::
  "datetime_lib \<Rightarrow> string list \<Rightarrow> AddressBook \<Rightarrow> string \<times> AddressBook" where
  "add_birthday_handler L args = input_error (add_birthday_handler_body L args)"

definition show_birthday_body ::
  "datetime_lib \<Rightarrow> string list \<Rightarrow> AddressBook \<Rightarrow> (exn + string) \<times> AddressBook" where
  "show_birthday_body L args book =
     (case args of
        [] \<Rightarrow> (Inl (ValueError ''Please provide a contact name.''), book)
      | n # _ \<Rightarrow>
          (case find_record (lower n) book of
             None \<Rightarrow> (Inr ''Birthday not found for this contact.'', book)
           | Some record \<Rightarrow>
               (case birthday record of
                  None \<Rightarrow> (Inr ''Birthday not found for this contact.'', book)
                | Some b \<Rightarrow> (Inr (strftime_dmY L (birthday_value b)), book))))"

definition show_birthday ::
  "datetime_lib \<Rightarrow> string list \<Rightarrow> AddressBook \<Rightarrow> string \<times> AddressBook" where
  "show_birthday L args = input_error (show_birthday_body L args)"

text \<open>
  One turn of the loop of \<^verbatim>\<open>main\<close> (lines 190 to 221) on one line of input, with the
  date the clock shows: the lines printed and the book, the end of the loop, or an
  exception that leaves \<^verbatim>\<open>main\<close>.
\<close>

datatype outcome = Continue "string list" AddressBook | Exit "string list" | Crash exn

definition print_birthdays :: "birthdays \<Rightarrow> string list" where
  "print_birthdays birthdays_next_week =
     (if birthdays_next_week \<noteq> []
      then map (\<lambda>(d, names). d @ '': '' @ join '', '' names) birthdays_next_week
      else [''No birthdays next week.''])"

definition main_step :: "datetime_lib \<Rightarrow> date \<Rightarrow> string \<Rightarrow> AddressBook \<Rightarrow> outcome" where
  "main_step L today user_input book =
     (case parse_input user_input of
        (None, _) \<Rightarrow> Continue [] book
      | (Some command, args) \<Rightarrow>
          if command \<in> set [''close'', ''exit''] then Exit [''Good bye!'']
          else if command = ''hello'' then Continue [''How can I help you?''] book
          else if command = ''add'' then
            (case add_contact args book of (s, book') \<Rightarrow> Continue [s] book')
          else if command = ''change'' then
            (case change_phone args book of (s, book') \<Rightarrow> Continue [s] book')
          else if command = ''phone'' then
            (case get_phone args book of (s, book') \<Rightarrow> Continue [s] book')
          else if command = ''all'' then
            (case show_all_contacts L book of (s, book') \<Rightarrow> Continue [s] book')
          else if command = ''add-birthday'' then
            (case add_birthday_handler L args book of (s, book') \<Rightarrow> Continue [s] book')
          else if command = ''show-birthday'' then
            (case show_birthday L args book of (s, book') \<Rightarrow> Continue [s] book')
          else if command = ''birthdays'' then
            (case get_birthdays_per_week today book of
               (Inl e, _) \<Rightarrow> Crash e
             | (Inr birthdays_next_week, book') \<Rightarrow>
                 Continue (print_birthdays birthdays_next_week) book')
          else Continue [''Invalid command.''] book)"

text \<open>
  \<^verbatim>\<open>main\<close> on the lines typed so far, each with the date of its turn: the session is
  still reading, has ended, or has been left by an exception.
\<close>

datatype session =
  Reading "string list" AddressBook | Ended "string list" | Crashed "string list" exn

fun main_loop :: "datetime_lib \<Rightarrow> (date \<times> string) list \<Rightarrow> string list \<Rightarrow> AddressBook \<Rightarrow> session" where
  "main_loop L [] out book = Reading out book"
| "main_loop L ((today, user_input) # rest) out book =
     (case main_step L today user_input book of
        Continue ls book' \<Rightarrow> main_loop L rest (out @ ls) book'
      | Exit ls \<Rightarrow> Ended (out @ ls)
      | Crash e \<Rightarrow> Crashed out e)"

definition main :: "datetime_lib \<Rightarrow> (date \<times> string) list \<Rightarrow> session" where
  "main L inputs = main_loop L inputs [''Welcome to the assistant bot!''] []"

section \<open>Phone validation\<close>

lemma match_phone_iff:
  "match_phone s \<longleftrightarrow>
     (length s = 10 \<and> list_all is_digit s) \<or>
     (length s = 11 \<and> list_all is_digit (take 10 s) \<and> s ! 10 = CHR 0x0A)"
proof (cases "length s \<le> 10")
  case True
  then show ?thesis
    by (auto simp: match_phone_def at_dollar_def)
next
  case False
  then have len: "10 < length s" by simp
  have "drop 10 s = [CHR 0x0A] \<longleftrightarrow> length s = 11 \<and> s ! 10 = CHR 0x0A"
  proof
    assume d: "drop 10 s = [CHR 0x0A]"
    then have "length (drop 10 s) = 1" by simp
    then have l: "length s = 11" by simp
    have "s ! 10 = drop 10 s ! 0" using len by simp
    with d l show "length s = 11 \<and> s ! 10 = CHR 0x0A" by simp
  next
    assume a: "length s = 11 \<and> s ! 10 = CHR 0x0A"
    then have "length (drop 10 s) = 1" by simp
    then obtain c where c: "drop 10 s = [c]"
      by (cases "drop 10 s") auto
    have "s ! 10 = drop 10 s ! 0" using len by simp
    with a c show "drop 10 s = [CHR 0x0A]" by simp
  qed
  with len show ?thesis
    by (auto simp: match_phone_def at_dollar_def)
qed

text \<open>
  C4. Phone construction succeeds exactly on the strings of ten decimal digits. The
  code also accepts ten digits followed by one newline: at the eleven-character string
  below, which holds a character that is no digit, construction returns a Phone.
\<close>

theorem Phone_init_trailing_newline:
  "Phone_init (''1234567890'' @ [CHR 0x0A]) = Inr (Phone (''1234567890'' @ [CHR 0x0A]))"
  by (simp add: Phone_init_def match_phone_def at_dollar_def is_digit_def)

section \<open>Editing the phones of a record\<close>

lemma find_phone_value:
  "find (\<lambda>p. phone_value p = v) ps = (if Phone v \<in> set ps then Some (Phone v) else None)"
proof (induction ps)
  case Nil
  then show ?case by simp
next
  case (Cons p ps)
  then show ?case by (cases p) auto
qed

lemma remove_phone_eq: "remove_phone v r = r\<lparr>phones := remove1 (Phone v) (phones r)\<rparr>"
  by (simp add: remove_phone_def find_phone_value remove1_idem)

lemma count_list_remove1_same:
  "x \<in> set xs \<Longrightarrow> count_list (remove1 x xs) x = count_list xs x - 1"
  by (induction xs) auto

lemma in_set_count_list: "x \<in> set xs \<longleftrightarrow> 0 < count_list xs x"
  using count_list_0_iff [of xs x] by auto

lemma in_remove1_same_iff: "x \<in> set (remove1 x xs) \<longleftrightarrow> 2 \<le> count_list xs x"
proof (cases "x \<in> set xs")
  case True
  then show ?thesis
    using count_list_remove1_same [of x xs] in_set_count_list [of x "remove1 x xs"] by auto
next
  case False
  then show ?thesis using count_list_0_iff [of xs x] by (simp add: remove1_idem)
qed

text \<open>
  C5, as the code has it. When the record holds a phone equal to \<open>old\<close> and \<open>new\<close>
  fails the validation, \<open>edit_phone old new\<close> raises the ValueError of the validation
  and leaves the record with the first phone equal to \<open>old\<close> removed and nothing added:
  the list is one shorter. The list is free of \<open>old\<close> afterwards exactly when \<open>old\<close>
  was in it once.
\<close>

theorem edit_phone_invalid_new:
  assumes "Phone old \<in> set (phones r)" and "\<not> match_phone new"
  shows "edit_phone old new r =
           (Inl (ValueError ''Phone number must be 10 digits.''),
            r\<lparr>phones := remove1 (Phone old) (phones r)\<rparr>) \<and>
         length (phones (snd (edit_phone old new r))) + 1 = length (phones r) \<and>
         (Phone old \<notin> set (phones (snd (edit_phone old new r))) \<longleftrightarrow>
            count_list (phones r) (Phone old) = 1)"
proof -
  have e: "edit_phone old new r =
           (Inl (ValueError ''Phone number must be 10 digits.''),
            r\<lparr>phones := remove1 (Phone old) (phones r)\<rparr>)"
    using assms(2) by (simp add: edit_phone_def add_phone_def Phone_init_def remove_phone_eq)
  have l: "length (remove1 (Phone old) (phones r)) + 1 = length (phones r)"
    using assms(1) length_pos_if_in_set [of "Phone old" "phones r"]
    by (simp add: length_remove1)
  have c: "0 < count_list (phones r) (Phone old)"
    using assms(1) in_set_count_list by fastforce
  have "Phone old \<notin> set (remove1 (Phone old) (phones r)) \<longleftrightarrow>
          count_list (phones r) (Phone old) = 1"
    using c in_remove1_same_iff [of "Phone old" "phones r"] by auto
  with e l show ?thesis by simp
qed

theorem edit_phone_invalid_new_witness:
  "Phone ''1234567890''
     \<in> set (phones \<lparr>name = Name ''ann'', phones = [Phone ''1234567890''], birthday = None\<rparr>) \<and>
   \<not> match_phone ''12-34'' \<and>
   edit_phone ''1234567890'' ''12-34''
       \<lparr>name = Name ''ann'', phones = [Phone ''1234567890''], birthday = None\<rparr> =
     (Inl (ValueError ''Phone number must be 10 digits.''),
      \<lparr>name = Name ''ann'', phones = [], birthday = None\<rparr>)"
proof -
  have m: "\<not> match_phone ''12-34''"
    by (simp add: match_phone_def)
  show ?thesis
    using m edit_phone_invalid_new
      [of "''1234567890''"
          "\<lparr>name = Name ''ann'', phones = [Phone ''1234567890''], birthday = None\<rparr>"
          "''12-34''"]
    by simp
qed

text \<open>
  The claim C5 as it is written fails on a record that holds the old phone twice: the
  call raises, and the list still holds a phone equal to \<open>old\<close>.
\<close>

theorem edit_phone_invalid_new_counterexample:
  "Phone ''1234567890''
     \<in> set (phones \<lparr>name = Name ''ann'',
                     phones = [Phone ''1234567890'', Phone ''1234567890''],
                     birthday = None\<rparr>) \<and>
   \<not> match_phone ''12-34'' \<and>
   fst (edit_phone ''1234567890'' ''12-34''
          \<lparr>name = Name ''ann'', phones = [Phone ''1234567890'', Phone ''1234567890''],
           birthday = None\<rparr>) = Inl (ValueError ''Phone number must be 10 digits.'') \<and>
   Phone ''1234567890''
     \<in> set (phones (snd (edit_phone ''1234567890'' ''12-34''
          \<lparr>name = Name ''ann'', phones = [Phone ''1234567890'', Phone ''1234567890''],
           birthday = None\<rparr>)))"
  by (simp add: edit_phone_def add_phone_def Phone_init_def remove_phone_def match_phone_def)

text \<open>
  C6, as the code has it. For a string \<open>new\<close> of ten digits, \<open>edit_phone old new\<close>
  returns, \<open>find_phone new\<close> then returns the phone with the value \<open>new\<close>, and
  \<open>find_phone old\<close> then returns none exactly when \<open>old\<close> differs from \<open>new\<close> and
  the record held at most one phone equal to \<open>old\<close>.
\<close>

theorem edit_phone_then_find:
  assumes "length new = 10" and "list_all is_digit new"
  shows "fst (edit_phone old new r) = Inr () \<and>
         find_phone new (snd (edit_phone old new r)) = Some (Phone new) \<and>
         (find_phone old (snd (edit_phone old new r)) = None \<longleftrightarrow>
            old \<noteq> new \<and> count_list (phones r) (Phone old) \<le> 1)"
proof -
  have m: "match_phone new"
    using assms by (simp add: match_phone_iff)
  have e: "edit_phone old new r =
             (Inr (), r\<lparr>phones := remove1 (Phone old) (phones r) @ [Phone new]\<rparr>)"
    using m by (simp add: edit_phone_def add_phone_def Phone_init_def remove_phone_eq)
  have "Phone old \<notin> set (remove1 (Phone old) (phones r)) \<longleftrightarrow>
          count_list (phones r) (Phone old) \<le> 1"
    using in_remove1_same_iff [of "Phone old" "phones r"] by auto
  with e show ?thesis
    by (auto simp: find_phone_def find_phone_value)
qed

theorem edit_phone_then_find_witness:
  "length ''0987654321'' = 10 \<and> list_all is_digit ''0987654321'' \<and>
   fst (edit_phone ''1234567890'' ''0987654321''
          \<lparr>name = Name ''ann'', phones = [Phone ''1234567890''], birthday = None\<rparr>) = Inr () \<and>
   find_phone ''0987654321'' (snd (edit_phone ''1234567890'' ''0987654321''
          \<lparr>name = Name ''ann'', phones = [Phone ''1234567890''], birthday = None\<rparr>))
     = Some (Phone ''0987654321'') \<and>
   find_phone ''1234567890'' (snd (edit_phone ''1234567890'' ''0987654321''
          \<lparr>name = Name ''ann'', phones = [Phone ''1234567890''], birthday = None\<rparr>)) = None"
proof -
  have d: "list_all is_digit ''0987654321''"
    by (simp add: is_digit_def)
  show ?thesis
    using d edit_phone_then_find
      [of "''0987654321''" "''1234567890''"
          "\<lparr>name = Name ''ann'', phones = [Phone ''1234567890''], birthday = None\<rparr>"]
    by simp
qed

text \<open>
  The claim C6 as it is written fails on a record that holds the old phone twice:
  after the edit to a valid new phone, \<open>find_phone old\<close> returns the second one.
\<close>

theorem edit_phone_then_find_counterexample:
  "length ''0987654321'' = 10 \<and> list_all is_digit ''0987654321'' \<and>
   fst (edit_phone ''1234567890'' ''0987654321''
          \<lparr>name = Name ''ann'', phones = [Phone ''1234567890'', Phone ''1234567890''],
           birthday = None\<rparr>) = Inr () \<and>
   find_phone ''1234567890'' (snd (edit_phone ''1234567890'' ''0987654321''
          \<lparr>name = Name ''ann'', phones = [Phone ''1234567890'', Phone ''1234567890''],
           birthday = None\<rparr>)) = Some (Phone ''1234567890'')"
  by (simp add: edit_phone_def add_phone_def Phone_init_def remove_phone_def match_phone_def
      at_dollar_def find_phone_def is_digit_def)

section \<open>Adding, finding and deleting records\<close>

lemma filter_key_absent:
  "k \<notin> fst ` set al \<Longrightarrow> filter (\<lambda>(k', v'). k' = k) al = []"
  by (induction al) auto

lemma filter_key_update:
  "distinct (map fst al) \<Longrightarrow> filter (\<lambda>(k', v'). k' = k) (AList.update k v al) = [(k, v)]"
proof (induction al)
  case Nil
  then show ?case by simp
next
  case (Cons p al)
  have "filter (\<lambda>(k', v'). k' = fst p) al = []"
    using Cons.prems by (simp add: filter_key_absent)
  with Cons show ?case by (cases p) auto
qed

lemma wf_book_add_record: "wf_book book \<Longrightarrow> wf_book (add_record r book)"
  by (simp add: wf_book_def add_record_def distinct_update)

lemma wf_book_delete: "wf_book book \<Longrightarrow> wf_book (delete n book)"
  by (simp add: wf_book_def delete_def distinct_delete)

text \<open>
  C8. In a book (its keys distinct, as those of a dict are), adding \<open>r1\<close> and then
  \<open>r2\<close> of the same name leaves one entry under that name, which is \<open>r2\<close>, and
  \<open>find\<close> returns \<open>r2\<close>.
\<close>

theorem add_record_twice:
  assumes "wf_book book" and "name r1 = name r2"
  shows "find_record (name_value (name r2)) (add_record r2 (add_record r1 book)) = Some r2 \<and>
         filter (\<lambda>(k, v). k = name_value (name r2)) (add_record r2 (add_record r1 book))
           = [(name_value (name r2), r2)] \<and>
         wf_book (add_record r2 (add_record r1 book))"
proof -
  let ?k = "name_value (name r2)"
  have u: "add_record r2 (add_record r1 book) = AList.update ?k r2 book"
    using assms(2) by (simp add: add_record_def)
  have d: "distinct (map fst book)"
    using assms(1) by (simp add: wf_book_def)
  show ?thesis
    unfolding u using d
    by (simp add: find_record_def update_conv' filter_key_update wf_book_def distinct_update)
qed

theorem add_record_twice_witness:
  "wf_book [(''bob'', \<lparr>name = Name ''bob'', phones = [], birthday = None\<rparr>)] \<and>
   name \<lparr>name = Name ''ann'', phones = [Phone ''1234567890''], birthday = None\<rparr>
     = name \<lparr>name = Name ''ann'', phones = [Phone ''0987654321''], birthday = None\<rparr> \<and>
   find_record ''ann''
     (add_record \<lparr>name = Name ''ann'', phones = [Phone ''0987654321''], birthday = None\<rparr>
       (add_record \<lparr>name = Name ''ann'', phones = [Phone ''1234567890''], birthday = None\<rparr>
         [(''bob'', \<lparr>name = Name ''bob'', phones = [], birthday = None\<rparr>)]))
     = Some \<lparr>name = Name ''ann'', phones = [Phone ''0987654321''], birthday = None\<rparr>"
proof -
  have w: "wf_book [(''bob'', \<lparr>name = Name ''bob'', phones = [], birthday = None\<rparr>)]"
    by (simp add: wf_book_def)
  show ?thesis
    using w add_record_twice
      [of "[(''bob'', \<lparr>name = Name ''bob'', phones = [], birthday = None\<rparr>)]"
          "\<lparr>name = Name ''ann'', phones = [Phone ''1234567890''], birthday = None\<rparr>"
          "\<lparr>name = Name ''ann'', phones = [Phone ''0987654321''], birthday = None\<rparr>"]
    by simp
qed

text \<open>
  C9. \<open>delete\<close> of a name that is no key of the book returns the book as it was;
  \<open>delete\<close> has no raise.
\<close>

theorem delete_absent:
  assumes "n \<notin> set (map fst book)"
  shows "delete n book = book"
  using assms by (simp add: delete_def)

theorem delete_absent_witness:
  "''ann'' \<notin> set (map fst [(''bob'', \<lparr>name = Name ''bob'', phones = [], birthday = None\<rparr>)]) \<and>
   delete ''ann'' [(''bob'', \<lparr>name = Name ''bob'', phones = [], birthday = None\<rparr>)]
     = [(''bob'', \<lparr>name = Name ''bob'', phones = [], birthday = None\<rparr>)]"
  using delete_absent
    [of "''ann''" "[(''bob'', \<lparr>name = Name ''bob'', phones = [], birthday = None\<rparr>)]"]
  by simp

end
